theory Spec2Isabelle
  imports Complex_Main
begin

section \<open>The send-email handler (src/send-email/lambda\_function.py)\<close>

text \<open>
  The handler reads a template and a spreadsheet from the object store, checks the
  template's placeholders against the spreadsheet's columns, sends one message per row
  and writes one audit item per row. The object store, the mail provider, the audit
  table, the clock, the identifier generator and \<open>str.format\<close> are library code: they
  are fields of an environment record, and every call to one of them is written into
  the state that the functions pass along.
\<close>

subsection \<open>Python values\<close>

text \<open>
  The values a JSON request body or a spreadsheet cell can hold. \<open>PNaN\<close> is the float
  \<open>nan\<close> that \<open>pandas.read_excel\<close> puts in an empty cell.
\<close>

datatype pyval =
    PNone
  | PBool bool
  | PInt int
  | PFloat rat
  | PNaN
  | PStr string
  | PList "pyval list"
  | PDict "(string \<times> pyval) list"

text \<open>\<open>bool(v)\<close>: the source's \<open>not v\<close> is \<open>\<not> truthy v\<close>.\<close>

fun truthy :: "pyval \<Rightarrow> bool" where
  "truthy PNone = False"
| "truthy (PBool b) = b"
| "truthy (PInt n) = (n \<noteq> 0)"
| "truthy (PFloat q) = (q \<noteq> 0)"
| "truthy PNaN = True"
| "truthy (PStr s) = (s \<noteq> [])"
| "truthy (PList xs) = (xs \<noteq> [])"
| "truthy (PDict kvs) = (kvs \<noteq> [])"

fun type_name :: "pyval \<Rightarrow> string" where
  "type_name PNone = ''NoneType''"
| "type_name (PBool _) = ''bool''"
| "type_name (PInt _) = ''int''"
| "type_name (PFloat _) = ''float''"
| "type_name PNaN = ''float''"
| "type_name (PStr _) = ''str''"
| "type_name (PList _) = ''list''"
| "type_name (PDict _) = ''dict''"

text \<open>A dictionary is an association list holding each key once; \<open>d.get(k, default)\<close>.\<close>

type_synonym pydict = "(string \<times> pyval) list"

definition dict_get_default :: "pydict \<Rightarrow> string \<Rightarrow> pyval \<Rightarrow> pyval" where
  "dict_get_default d k dflt = (case map_of d k of None \<Rightarrow> dflt | Some v \<Rightarrow> v)"

definition dict_get :: "pydict \<Rightarrow> string \<Rightarrow> pyval" where
  "dict_get d k = dict_get_default d k PNone"

text \<open>\<open>sep.join(xs)\<close> on a list of strings.\<close>

fun join :: "string \<Rightarrow> string list \<Rightarrow> string" where
  "join sep [] = []"
| "join sep [x] = x"
| "join sep (x # y # ys) = x @ sep @ join sep (y # ys)"

subsection \<open>Exceptions\<close>

datatype exn_class = ClientError | ValueError | TypeError | AttributeError | OtherException

text \<open>An exception is its class and its message \<open>str(e)\<close>.\<close>

datatype exn = Exn exn_class string

fun exn_str :: "exn \<Rightarrow> string" where
  "exn_str (Exn _ m) = m"

fun is_ClientError :: "exn \<Rightarrow> bool" where
  "is_ClientError (Exn c _) = (c = ClientError)"

subsection \<open>The placeholder pattern\<close>

text \<open>
  The pattern \<open>{{(.*?)}}\<close>, tried on the text that follows an opening \<open>{{\<close>: the lazy
  group takes the fewest characters, none of them a newline, that are followed by \<open>}}\<close>.
  The result is the group; the match ends two characters after it.
\<close>

fun capture :: "string \<Rightarrow> string option" where
  "capture [] = None"
| "capture (c # cs) =
     (if c = CHR ''}'' \<and> take 1 cs = ''}'' then Some []
      else if c = CHR 0x0A then None
      else map_option (\<lambda>x. c # x) (capture cs))"

text \<open>
  The pattern tried at position \<open>i\<close> of a text: it matches there, with group \<open>x\<close>, when
  the text reads \<open>{{\<close> at \<open>i\<close> and \<open>capture\<close> gives \<open>x\<close> on what follows.
\<close>

definition match_at :: "string \<Rightarrow> nat \<Rightarrow> string option" where
  "match_at s i = (if take 2 (drop i s) = ''{{'' then capture (drop (i + 2) s) else None)"

text \<open>
  \<open>re.finditer\<close>: the scan goes left to right; where the pattern matches, the match is
  kept with its start position and the scan goes on after the match, otherwise it moves
  one character on. The first argument is the position of the text in the template.
\<close>

fun finditer :: "nat \<Rightarrow> string \<Rightarrow> (nat \<times> string) list" where
  "finditer i [] = []"
| "finditer i (c # cs) =
     (if c = CHR ''{'' \<and> take 1 cs = ''{'' then
        (case capture (drop 1 cs) of
           Some x \<Rightarrow> (i, x) # finditer (i + length x + 4) (drop (length x + 3) cs)
         | None \<Rightarrow> finditer (i + 1) cs)
      else finditer (i + 1) cs)"

text \<open>\<open>re.findall(r'{{(.*?)}}', s)\<close>: the groups of the matches, in the order of the scan.\<close>

definition findall :: "string \<Rightarrow> string list" where
  "findall s = map snd (finditer 0 s)"

text \<open>\<open>re.sub(r'\{\{(.*?)\}\}', r'{\1}', s)\<close>: each match becomes its group in single braces.\<close>

fun sub_braces :: "string \<Rightarrow> string" where
  "sub_braces [] = []"
| "sub_braces (c # cs) =
     (if c = CHR ''{'' \<and> take 1 cs = ''{'' then
        (case capture (drop 1 cs) of
           Some x \<Rightarrow> ''{'' @ x @ ''}'' @ sub_braces (drop (length x + 3) cs)
         | None \<Rightarrow> c # sub_braces cs)
      else c # sub_braces cs)"

subsection \<open>validate\_template\<close>

text \<open>
  The placeholders of the template that are not among the columns, in the order found.
  Nothing in the body can raise on a string and a list of strings, so the handler
  that prints and raises again is never entered.
\<close>

definition validate_template :: "string \<Rightarrow> string list \<Rightarrow> string list" where
  "validate_template template_content columns =
     (let placeholders = findall template_content;
          missing_columns = filter (\<lambda>placeholder. placeholder \<notin> set columns) placeholders
      in missing_columns)"

subsection \<open>Tables, messages and audit items\<close>

type_synonym row = pydict

text \<open>
  The data frame read from the spreadsheet: its column names and its rows, each row a
  dictionary from column name to cell (\<open>to_dict(orient='records')\<close>).
\<close>

record dataframe =
  df_columns :: "string list"
  df_records :: "row list"

text \<open>\<open>DataFrame.empty\<close>: some axis has length zero.\<close>

definition df_empty :: "dataframe \<Rightarrow> bool" where
  "df_empty df = (df_columns df = [] \<or> df_records df = [])"

text \<open>
  The arguments of \<open>ses_client.send_email\<close>. The sender is
  \<open>f"{display_name} <awseducate.cloudambassador@gmail.com>"\<close>, kept as the display name.
\<close>

record ses_message =
  msg_display_name :: pyval
  msg_to_address :: pyval
  msg_subject :: pyval
  msg_html :: string

text \<open>The item written by \<open>table.put_item\<close>.\<close>

record item =
  item_run_id :: pyval
  item_email_id :: string
  item_display_name :: pyval
  item_status :: string
  item_recipient_email :: pyval
  item_template_file_id :: pyval
  item_spreadsheet_file_id :: pyval
  item_created_at :: string

subsection \<open>The environment and the state\<close>

text \<open>
  What the libraries answer. The first argument of the mail provider, the audit table,
  the identifier generator and the clock is the number of library calls made so far, so
  that the same call can be answered differently at different moments. \<open>None\<close> from the
  provider or the table is a call that returns; \<open>Some e\<close> is a call that raises \<open>e\<close>.
  \<^item> \<open>s3_get_text\<close>: the client, \<open>get_object\<close>, \<open>read\<close> and \<open>decode\<close> of \<open>get_template\<close>;
  \<^item> \<open>s3_read_excel\<close>: the client, \<open>get_object\<close>, \<open>read\<close> and \<open>pd.read_excel\<close>;
  \<^item> \<open>str_format\<close>: \<open>template_content.format(**row)\<close>;
  \<^item> \<open>ses_send_email\<close>: \<open>ses_client.send_email\<close>;
  \<^item> \<open>dynamo_put_item\<close>: the resource, the table and \<open>table.put_item\<close>;
  \<^item> \<open>uuid4_hex\<close>: \<open>uuid.uuid4().hex\<close>; \<open>now\<close>: \<open>datetime.datetime.now()\<close> in seconds;
    \<open>strftime\<close>: the time in \<open>TIME_FORMAT\<close>.

  Making the provider's client and \<open>json.dumps\<close> on the values of \<open>pyval\<close> do not
  raise.
\<close>

record env =
  s3_get_text :: "pyval \<Rightarrow> exn + string"
  s3_read_excel :: "pyval \<Rightarrow> exn + dataframe"
  str_format :: "string \<Rightarrow> row \<Rightarrow> exn + string"
  ses_send_email :: "nat \<Rightarrow> ses_message \<Rightarrow> exn option"
  dynamo_put_item :: "nat \<Rightarrow> item \<Rightarrow> exn option"
  uuid4_hex :: "nat \<Rightarrow> string"
  now :: "nat \<Rightarrow> int"
  strftime :: "int \<Rightarrow> string"

datatype call =
    S3GetTemplate pyval
  | S3ReadSheet pyval
  | SesSendEmail ses_message
  | DynamoPutItem item

text \<open>One constructor for each \<open>print\<close> of the source.\<close>

datatype log_entry =
    LogErrorIn string exn
  | LogNoEmail pyval
  | LogEmailSent pyval string
  | LogSendFailed pyval exn
  | LogSaved item
  | LogErrorSaving exn

text \<open>
  \<open>tick\<close> counts the library calls, \<open>calls\<close> lists the calls to the three
  collaborators in order, \<open>audit\<close> holds the items the table has accepted, \<open>logs\<close> is
  what has been printed.
\<close>

record state =
  tick :: nat
  calls :: "call list"
  audit :: "item list"
  logs :: "log_entry list"

definition initial :: state where
  "initial = \<lparr>tick = 0, calls = [], audit = [], logs = []\<rparr>"

definition emit :: "log_entry \<Rightarrow> state \<Rightarrow> state" where
  "emit l st = st\<lparr>logs := logs st @ [l]\<rparr>"

definition contact :: "call \<Rightarrow> state \<Rightarrow> state" where
  "contact c st = st\<lparr>tick := tick st + 1, calls := calls st @ [c]\<rparr>"

definition advance :: "state \<Rightarrow> state" where
  "advance st = st\<lparr>tick := tick st + 1\<rparr>"

text \<open>The items handed to the audit table and the messages handed to the provider.\<close>

fun put_items :: "call list \<Rightarrow> item list" where
  "put_items [] = []"
| "put_items (DynamoPutItem it # cs) = it # put_items cs"
| "put_items (_ # cs) = put_items cs"

fun sent_messages :: "call list \<Rightarrow> ses_message list" where
  "sent_messages [] = []"
| "sent_messages (SesSendEmail m # cs) = m # sent_messages cs"
| "sent_messages (_ # cs) = sent_messages cs"

subsection \<open>get\_template and read\_sheet\_data\_from\_s3\<close>

definition get_template :: "env \<Rightarrow> pyval \<Rightarrow> state \<Rightarrow> (exn + string) \<times> state" where
  "get_template e template_file_id st =
     (let st1 = contact (S3GetTemplate template_file_id) st in
      case s3_get_text e template_file_id of
        Inr template_content \<Rightarrow> (Inr template_content, st1)
      | Inl ex \<Rightarrow> (Inl ex, emit (LogErrorIn ''get_template'' ex) st1))"

text \<open>
  The function returns a pair for a table with data and a triple for an empty one.
\<close>

datatype sheet_result =
    Pair2 "row list" "string list"
  | Triple3 "row list" int bool

definition read_sheet_data_from_s3 ::
  "env \<Rightarrow> pyval \<Rightarrow> state \<Rightarrow> (exn + sheet_result) \<times> state" where
  "read_sheet_data_from_s3 e spreadsheet_file_id st =
     (let st1 = contact (S3ReadSheet spreadsheet_file_id) st in
      case s3_read_excel e spreadsheet_file_id of
        Inr excel_data \<Rightarrow>
          (let rows = df_records excel_data in
           if df_empty excel_data then (Inr (Triple3 [] 0 True), st1)
           else (Inr (Pair2 rows (df_columns excel_data)), st1))
      | Inl ex \<Rightarrow> (Inl ex, emit (LogErrorIn ''read_sheet_data_from_s3'' ex) st1))"

subsection \<open>send\_email\<close>

text \<open>
  The statements before the inner \<open>try\<close> cannot raise on a string and a dictionary, so
  the function always returns its pair (send time, status).
\<close>

definition send_email ::
  "env \<Rightarrow> pyval \<Rightarrow> string \<Rightarrow> row \<Rightarrow> pyval \<Rightarrow> state \<Rightarrow> (string \<times> string) \<times> state" where
  "send_email e email_title template_content row display_name st =
     (let template_content1 = filter (\<lambda>c. c \<noteq> CHR 0x0D) template_content;
          template_content2 = sub_braces template_content1;
          receiver_email = dict_get row ''Email'';
          name = dict_get_default row ''Name'' (PStr ''Unknown'')
      in if \<not> truthy receiver_email then
           ((''Failed'', ''FAILED''), emit (LogNoEmail name) st)
         else
           (case str_format e template_content2 row of
              Inl ex \<Rightarrow> ((''Failed'', ''FAILED''), emit (LogSendFailed name ex) st)
            | Inr formatted_content \<Rightarrow>
                (let msg = \<lparr>msg_display_name = display_name, msg_to_address = receiver_email,
                            msg_subject = email_title, msg_html = formatted_content\<rparr>;
                     st1 = contact (SesSendEmail msg) st
                 in case ses_send_email e (tick st) msg of
                      Some ex \<Rightarrow> ((''Failed'', ''FAILED''), emit (LogSendFailed name ex) st1)
                    | None \<Rightarrow>
                        (let formatted_send_time = strftime e (now e (tick st1) + 8 * 3600)
                         in ((formatted_send_time, ''SUCCESS''),
                             emit (LogEmailSent name formatted_send_time) (advance st1))))))"

subsection \<open>save\_to\_dynamodb\<close>

text \<open>
  A \<open>ClientError\<close> of \<open>put_item\<close> is printed and the function returns; any other
  exception is printed by the outer handler and raised again.
\<close>

definition save_to_dynamodb :: "env \<Rightarrow> item \<Rightarrow> state \<Rightarrow> (exn + unit) \<times> state" where
  "save_to_dynamodb e it st =
     (let st1 = contact (DynamoPutItem it) st in
      case dynamo_put_item e (tick st) it of
        None \<Rightarrow> (Inr (), emit (LogSaved it) (st1\<lparr>audit := audit st1 @ [it]\<rparr>))
      | Some ex \<Rightarrow>
          if is_ClientError ex then (Inr (), emit (LogErrorSaving ex) st1)
          else (Inl ex, emit (LogErrorIn ''save_to_dynamodb'' ex) st1))"

subsection \<open>lambda\_handler\<close>

text \<open>
  The event as the handler sees it through \<open>json.loads(event.get("body", "{}"))\<close>:
  no \<open>body\<close> key (the default \<open>"{}"\<close> is the empty object), a body on which
  \<open>json.loads\<close> raises, or a body that parses to a value.
\<close>

datatype event = NoBody | Unparsable exn | Parsed pyval

fun json_loads_body :: "event \<Rightarrow> exn + pyval" where
  "json_loads_body NoBody = Inr (PDict [])"
| "json_loads_body (Unparsable ex) = Inl ex"
| "json_loads_body (Parsed v) = Inr v"

text \<open>The returned dictionary; \<open>body\<close> is the value handed to \<open>json.dumps\<close>.\<close>

record response =
  statusCode :: int
  body :: pyval

text \<open>A field of a response body that is a dictionary.\<close>

fun field :: "pyval \<Rightarrow> string \<Rightarrow> pyval option" where
  "field (PDict kvs) k = map_of kvs k"
| "field _ k = None"

text \<open>
  The loop over the rows. The status of the row decides whether its address joins
  \<open>failed_recipients\<close>; the item is built from a new identifier and the time, and
  an exception of \<open>save_to_dynamodb\<close> leaves the loop.
\<close>

fun dispatch_rows ::
  "env \<Rightarrow> pyval \<Rightarrow> pyval \<Rightarrow> pyval \<Rightarrow> pyval \<Rightarrow> pyval \<Rightarrow> string \<Rightarrow> row list \<Rightarrow> pyval list \<Rightarrow>
   state \<Rightarrow> (exn + pyval list) \<times> state" where
  "dispatch_rows e run_id template_file_id spreadsheet_id email_title display_name
     template_content [] failed_recipients st = (Inr failed_recipients, st)"
| "dispatch_rows e run_id template_file_id spreadsheet_id email_title display_name
     template_content (row # data) failed_recipients st =
     (case send_email e email_title template_content row display_name st of
        ((_, status), st1) \<Rightarrow>
          (let failed_recipients1 =
                 (if status = ''FAILED'' then failed_recipients @ [dict_get row ''Email'']
                  else failed_recipients);
               email_id = uuid4_hex e (tick st1);
               st2 = advance st1;
               created_at = strftime e (now e (tick st2));
               st3 = advance st2;
               it = \<lparr>item_run_id = run_id, item_email_id = email_id,
                     item_display_name = display_name, item_status = status,
                     item_recipient_email = dict_get row ''Email'',
                     item_template_file_id = template_file_id,
                     item_spreadsheet_file_id = spreadsheet_id,
                     item_created_at = created_at\<rparr>
           in case save_to_dynamodb e it st3 of
                (Inl ex, st4) \<Rightarrow> (Inl ex, st4)
              | (Inr _, st4) \<Rightarrow>
                  dispatch_rows e run_id template_file_id spreadsheet_id email_title
                    display_name template_content data failed_recipients1 st4))"

text \<open>The response built after the loop.\<close>

definition run_response :: "env \<Rightarrow> pyval \<Rightarrow> pyval list \<Rightarrow> state \<Rightarrow> response \<times> state" where
  "run_response e run_id failed_recipients st =
     (let timestamp = strftime e (now e (tick st));
          st1 = advance st;
          sqs_message_id = uuid4_hex e (tick st1);
          st2 = advance st1;
          response =
            [(''status'', PStr ''success''),
             (''message'', PStr ''Email request has been queued successfully.''),
             (''request_id'', run_id),
             (''timestamp'', PStr timestamp),
             (''sqs_message_id'', PStr sqs_message_id)]
      in if failed_recipients \<noteq> [] then
           (\<lparr>statusCode = 207,
             body = PDict (response @ [(''failed_recipients'', PList failed_recipients)])\<rparr>, st2)
         else (\<lparr>statusCode = 200, body = PDict response\<rparr>, st2))"

definition missing_fields_message :: string where
  "missing_fields_message = ''Missing template_file_id, spreadsheet_id, email_title, or display_name''"

definition unpack_message :: string where
  "unpack_message = ''too many values to unpack (expected 2)''"

text \<open>
  From the fetches on: the two reads, the unpacking of the reader's result into two
  names (a triple raises \<open>ValueError\<close>), the placeholder check, the loop, the response.
\<close>

definition fetch_and_dispatch ::
  "env \<Rightarrow> pyval \<Rightarrow> pyval \<Rightarrow> pyval \<Rightarrow> pyval \<Rightarrow> pyval \<Rightarrow> state \<Rightarrow> (exn + response) \<times> state" where
  "fetch_and_dispatch e run_id template_file_id spreadsheet_id email_title display_name st =
     (case get_template e template_file_id st of
        (Inl ex, st1) \<Rightarrow> (Inl ex, st1)
      | (Inr template_content, st1) \<Rightarrow>
          (case read_sheet_data_from_s3 e spreadsheet_id st1 of
             (Inl ex, st2) \<Rightarrow> (Inl ex, st2)
           | (Inr (Triple3 _ _ _), st2) \<Rightarrow> (Inl (Exn ValueError unpack_message), st2)
           | (Inr (Pair2 data columns), st2) \<Rightarrow>
               (let missing_columns = validate_template template_content columns in
                if missing_columns \<noteq> [] then
                  (Inr \<lparr>statusCode = 400,
                        body = PStr (''Missing columns in Excel for placeholders: ''
                                     @ join '', '' missing_columns)\<rparr>, st2)
                else
                  (case dispatch_rows e run_id template_file_id spreadsheet_id email_title
                          display_name template_content data [] st2 of
                     (Inl ex, st3) \<Rightarrow> (Inl ex, st3)
                   | (Inr failed_recipients, st3) \<Rightarrow>
                       (case run_response e run_id failed_recipients st3 of
                          (r, st4) \<Rightarrow> (Inr r, st4))))))"

text \<open>\<open>body.get("run_id") if body.get("run_id") else uuid.uuid4().hex\<close>\<close>

definition choose_run_id :: "env \<Rightarrow> pydict \<Rightarrow> state \<Rightarrow> pyval \<times> state" where
  "choose_run_id e d st =
     (if truthy (dict_get d ''run_id'') then (dict_get d ''run_id'', st)
      else (PStr (uuid4_hex e (tick st)), advance st))"

text \<open>The body of the handler's \<open>try\<close>.\<close>

definition lambda_handler_try :: "env \<Rightarrow> event \<Rightarrow> state \<Rightarrow> (exn + response) \<times> state" where
  "lambda_handler_try e ev st =
     (case json_loads_body ev of
        Inl ex \<Rightarrow> (Inl ex, st)
      | Inr (PDict d) \<Rightarrow>
          (let template_file_id = dict_get d ''template_file_id'';
               spreadsheet_id = dict_get d ''spreadsheet_file_id'';
               email_title = dict_get d ''subject'';
               display_name = dict_get d ''display_name'';
               (run_id, st0) = choose_run_id e d st
           in if \<not> truthy template_file_id \<or> \<not> truthy spreadsheet_id
                 \<or> \<not> truthy email_title \<or> \<not> truthy display_name then
                (Inr \<lparr>statusCode = 400, body = PStr missing_fields_message\<rparr>, st0)
              else fetch_and_dispatch e run_id template_file_id spreadsheet_id email_title
                     display_name st0)
      | Inr v \<Rightarrow>
          (Inl (Exn AttributeError
                  ([CHR 0x27] @ type_name v @ [CHR 0x27] @ '' object has no attribute ''
                   @ [CHR 0x27] @ ''get'' @ [CHR 0x27])), st))"

text \<open>The handler: an exception of the body is printed and becomes the 500 response.\<close>

definition lambda_handler :: "env \<Rightarrow> event \<Rightarrow> state \<Rightarrow> response \<times> state" where
  "lambda_handler e ev st =
     (case lambda_handler_try e ev st of
        (Inr r, st1) \<Rightarrow> (r, st1)
      | (Inl ex, st1) \<Rightarrow>
          (\<lparr>statusCode = 500, body = PStr (''Internal server error: '' @ exn_str ex)\<rparr>,
           emit (LogErrorIn ''lambda_handler'' ex) st1))"

subsection \<open>Templates written as text and placeholders\<close>

text \<open>
  The specification's picture of a template: stretches of text with tokens \<open>{{name}}\<close>
  between them. It is used only to say what the scan finds on such a template.
\<close>

datatype segment = Text string | Hole string

fun render :: "segment list \<Rightarrow> string" where
  "render [] = []"
| "render (Text g # segs) = g @ render segs"
| "render (Hole x # segs) = ''{{'' @ x @ ''}}'' @ render segs"

fun holes :: "segment list \<Rightarrow> string list" where
  "holes [] = []"
| "holes (Text g # segs) = holes segs"
| "holes (Hole x # segs) = x # holes segs"

text \<open>Text without an opening brace; names without a closing brace or a newline.\<close>

fun plain :: "segment \<Rightarrow> bool" where
  "plain (Text g) = (CHR ''{'' \<notin> set g)"
| "plain (Hole x) = (CHR ''}'' \<notin> set x \<and> CHR 0x0A \<notin> set x)"

subsection \<open>Concrete runs\<close>

text \<open>
  A request with the four required fields, and the same request without
  \<open>display_name\<close>.
\<close>

definition fields_full :: pydict where
  "fields_full =
     [(''template_file_id'', PStr ''welcome.html''),
      (''spreadsheet_file_id'', PStr ''people.xlsx''),
      (''subject'', PStr ''Welcome''),
      (''display_name'', PStr ''Cloud Team'')]"

definition request_full :: event where
  "request_full = Parsed (PDict fields_full)"

definition request_no_display_name :: event where
  "request_no_display_name =
     Parsed (PDict [(''template_file_id'', PStr ''welcome.html''),
                    (''spreadsheet_file_id'', PStr ''people.xlsx''),
                    (''subject'', PStr ''Welcome'')])"

text \<open>
  An environment in which the template is \<open>Hi {{Name}}\<close>, the table has the columns
  \<open>Name\<close> and \<open>Email\<close> and two rows, formatting returns the text it is given, the
  provider refuses Bob's address and the audit table accepts every item.
\<close>

definition row_ann :: row where
  "row_ann = [(''Name'', PStr ''Ann''), (''Email'', PStr ''ann@example.org'')]"

definition row_bob :: row where
  "row_bob = [(''Name'', PStr ''Bob''), (''Email'', PStr ''bob@example.org'')]"

definition table_two_rows :: dataframe where
  "table_two_rows = \<lparr>df_columns = [''Name'', ''Email''], df_records = [row_ann, row_bob]\<rparr>"

definition env_two_rows :: env where
  "env_two_rows =
     \<lparr>s3_get_text = (\<lambda>k. Inr ''Hi {{Name}}''),
      s3_read_excel =
        (\<lambda>k. Inr table_two_rows),
      str_format = (\<lambda>t r. Inr t),
      ses_send_email =
        (\<lambda>k m. if msg_to_address m = PStr ''bob@example.org''
                then Some (Exn ClientError ''MessageRejected'') else None),
      dynamo_put_item = (\<lambda>k it. None),
      uuid4_hex = (\<lambda>k. ''0f3c''),
      now = (\<lambda>k. int k),
      strftime = (\<lambda>t. ''2024-05-01T10:00:00'')\<rparr>"


text \<open>The same with a spreadsheet that has its header row and no data row.\<close>

definition env_empty_table :: env where
  "env_empty_table =
     env_two_rows\<lparr>s3_read_excel :=
       (\<lambda>k. Inr \<lparr>df_columns = [''Name'', ''Email''], df_records = []\<rparr>)\<rparr>"

text \<open>The same with a provider that accepts every message.\<close>

definition env_delivered :: env where
  "env_delivered = env_two_rows\<lparr>ses_send_email := (\<lambda>k m. None)\<rparr>"

text \<open>An object store that does not have the template, and one that cannot read the table.\<close>

definition env_no_such_key :: env where
  "env_no_such_key =
     env_two_rows\<lparr>s3_get_text :=
       (\<lambda>k. Inl (Exn ClientError ''An error occurred (NoSuchKey) when calling the GetObject operation: The specified key does not exist.''))\<rparr>"

definition env_bad_sheet :: env where
  "env_bad_sheet =
     env_two_rows\<lparr>s3_read_excel := (\<lambda>k. Inl (Exn OtherException ''File is not a zip file''))\<rparr>"

text \<open>
  A table whose second row has an empty \<open>Email\<close> cell, and a provider that raises on an
  address that is not a string.
\<close>

definition row_blank :: row where
  "row_blank = [(''Name'', PStr ''Bob''), (''Email'', PNaN)]"

definition table_blank_cell :: dataframe where
  "table_blank_cell = \<lparr>df_columns = [''Name'', ''Email''], df_records = [row_ann, row_blank]\<rparr>"

definition env_blank_cell :: env where
  "env_blank_cell =
     env_two_rows\<lparr>
       s3_read_excel :=
         (\<lambda>k. Inr table_blank_cell),
       ses_send_email :=
         (\<lambda>k m. case msg_to_address m of
                   PStr a \<Rightarrow> None
                 | _ \<Rightarrow> Some (Exn OtherException ''Parameter validation failed''))\<rparr>"


definition env_put_timeout :: env where
  "env_put_timeout =
     env_two_rows\<lparr>dynamo_put_item :=
       (\<lambda>k it. Some (Exn OtherException ''Connect timeout on endpoint URL''))\<rparr>"


text \<open>The request without \<open>subject\<close>.\<close>

definition request_no_subject :: event where
  "request_no_subject =
     Parsed (PDict [(''template_file_id'', PStr ''welcome.html''),
                    (''spreadsheet_file_id'', PStr ''people.xlsx''),
                    (''display_name'', PStr ''Cloud Team'')])"




section \<open>Properties\<close>

subsection \<open>The scan for placeholders\<close>

lemma capture_Some:
  "capture s = Some x \<Longrightarrow> take (length x + 2) s = x @ ''}}'' \<and> CHR 0x0A \<notin> set x"
proof (induction s arbitrary: x)
  case Nil
  then show ?case by simp
next
  case (Cons c cs)
  show ?case
  proof (cases "c = CHR ''}'' \<and> take 1 cs = ''}''")
    case True
    with Cons.prems have "x = []" by simp
    moreover from True obtain r where "cs = CHR ''}'' # r" by (cases cs) auto
    ultimately show ?thesis using True by simp
  next
    case False
    with Cons.prems have nl: "c \<noteq> CHR 0x0A" by (auto split: if_splits)
    with False Cons.prems obtain y where y: "capture cs = Some y" "x = c # y"
      by (auto split: if_splits)
    from Cons.IH [OF y(1)] y(2) nl show ?thesis by simp
  qed
qed

lemma finditer_ge: "(j, x) \<in> set (finditer i s) \<Longrightarrow> i \<le> j"
proof (induction i s rule: finditer.induct)
  case (1 i)
  then show ?case by simp
next
  case (2 i c cs)
  then show ?case by (fastforce split: if_splits option.splits)
qed

lemma finditer_sorted: "sorted_wrt (<) (map fst (finditer i s))"
proof (induction i s rule: finditer.induct)
  case (1 i)
  then show ?case by simp
next
  case (2 i c cs)
  then show ?case by (fastforce split: if_splits option.splits dest: finditer_ge)
qed

lemma finditer_occurs:
  "(j, x) \<in> set (finditer i s) \<Longrightarrow> take (length x + 4) (drop (j - i) s) = ''{{'' @ x @ ''}}''"
proof (induction i s rule: finditer.induct)
  case (1 i)
  then show ?case by simp
next
  case (2 i c cs)
  show ?case
  proof (cases "c = CHR ''{'' \<and> take 1 cs = ''{''")
    case False
    with "2.prems" have mem: "(j, x) \<in> set (finditer (i + 1) cs)" by auto
    from finditer_ge [OF mem] have "j - i = Suc (j - (i + 1))" by simp
    with "2.IH"(3) [OF False mem] show ?thesis by simp
  next
    case True
    then obtain r where cs: "cs = CHR ''{'' # r" by (cases cs) auto
    show ?thesis
    proof (cases "capture (drop 1 cs)")
      case None
      with True "2.prems" have mem: "(j, x) \<in> set (finditer (i + 1) cs)" by auto
      from finditer_ge [OF mem] have "j - i = Suc (j - (i + 1))" by simp
      with "2.IH"(1) [OF True None mem] show ?thesis by simp
    next
      case (Some y)
      from capture_Some [OF Some] cs have tk: "take (length y + 2) r = y @ ''}}''" by simp
      from True Some "2.prems"
      consider "j = i" "x = y"
        | "(j, x) \<in> set (finditer (i + length y + 4) (drop (length y + 3) cs))"
        by auto
      then show ?thesis
      proof cases
        case 1
        with True cs tk show ?thesis by (simp add: take_Cons')
      next
        case 2
        from finditer_ge [OF 2] have "j - i = (j - (i + length y + 4)) + (length y + 4)"
          by simp
        moreover have "drop (length y + 4) (c # cs) = drop (length y + 3) cs"
          by (simp add: drop_Cons' add.commute)
        ultimately have
          "drop (j - i) (c # cs) = drop (j - (i + length y + 4)) (drop (length y + 3) cs)"
          by (metis drop_drop)
        with "2.IH"(2) [OF True Some 2] show ?thesis by simp
      qed
    qed
  qed
qed

text \<open>
  The matches kept by the scan are matches of the pattern at their positions; they do
  not overlap; and a match of the pattern at any position is kept or begins inside a
  kept one.
\<close>

lemma match_at_Cons_0:
  "match_at (c # cs) 0 =
     (if c = CHR ''{'' \<and> take 1 cs = ''{'' then capture (drop 1 cs) else None)"
  by (cases cs) (auto simp: match_at_def)

lemma match_at_Cons_Suc: "match_at (c # cs) (Suc k) = match_at cs k"
  by (simp add: match_at_def)

lemma match_at_drop: "match_at (drop n s) k = match_at s (n + k)"
  by (simp add: match_at_def add.commute add.left_commute add.assoc)

lemma finditer_sound: "(j, x) \<in> set (finditer i s) \<Longrightarrow> match_at s (j - i) = Some x"
proof (induction i s rule: finditer.induct)
  case (1 i)
  then show ?case by simp
next
  case (2 i c cs)
  show ?case
  proof (cases "c = CHR ''{'' \<and> take 1 cs = ''{''")
    case False
    with "2.prems" have mem: "(j, x) \<in> set (finditer (i + 1) cs)" by auto
    from finditer_ge [OF mem] have "j - i = Suc (j - (i + 1))" by simp
    with "2.IH"(3) [OF False mem] show ?thesis by (simp add: match_at_Cons_Suc)
  next
    case True
    show ?thesis
    proof (cases "capture (drop 1 cs)")
      case None
      with True "2.prems" have mem: "(j, x) \<in> set (finditer (i + 1) cs)" by auto
      from finditer_ge [OF mem] have "j - i = Suc (j - (i + 1))" by simp
      with "2.IH"(1) [OF True None mem] show ?thesis by (simp add: match_at_Cons_Suc)
    next
      case (Some y)
      from True Some "2.prems"
      consider "j = i" "x = y"
        | "(j, x) \<in> set (finditer (i + length y + 4) (drop (length y + 3) cs))"
        by auto
      then show ?thesis
      proof cases
        case 1
        with True Some show ?thesis by (simp add: match_at_Cons_0)
      next
        case 2
        from finditer_ge [OF 2] have e: "j - i = Suc (length y + 3 + (j - (i + length y + 4)))"
          by simp
        from "2.IH"(2) [OF True Some 2] show ?thesis
          unfolding e match_at_Cons_Suc by (simp add: match_at_drop)
      qed
    qed
  qed
qed

lemma finditer_complete:
  "match_at s k = Some x \<Longrightarrow>
   (i + k, x) \<in> set (finditer i s)
   \<or> (\<exists>(j, y) \<in> set (finditer i s). j < i + k \<and> i + k < j + length y + 4)"
proof (induction i s arbitrary: k rule: finditer.induct)
  case (1 i)
  then show ?case by (simp add: match_at_def)
next
  case (2 i c cs)
  show ?case
  proof (cases "c = CHR ''{'' \<and> take 1 cs = ''{'' \<and> capture (drop 1 cs) \<noteq> None")
    case False
    then have f: "finditer i (c # cs) = finditer (i + 1) cs"
      by (auto split: option.splits)
    from False have h: "match_at (c # cs) 0 = None"
      by (auto simp: match_at_Cons_0)
    with "2.prems" obtain k' where k: "k = Suc k'" by (cases k) auto
    with "2.prems" have m: "match_at cs k' = Some x" by (simp add: match_at_Cons_Suc)
    have "(i + 1 + k', x) \<in> set (finditer (i + 1) cs)
      \<or> (\<exists>(j, y) \<in> set (finditer (i + 1) cs). j < i + 1 + k' \<and> i + 1 + k' < j + length y + 4)"
    proof (cases "c = CHR ''{'' \<and> take 1 cs = ''{''")
      case True
      with False have "capture (drop 1 cs) = None" by simp
      from "2.IH"(1) [OF True this m] show ?thesis .
    next
      case False
      from "2.IH"(3) [OF False m] show ?thesis .
    qed
    with f k show ?thesis by simp
  next
    case True
    then obtain y where y: "capture (drop 1 cs) = Some y" and b: "c = CHR ''{'' \<and> take 1 cs = ''{''"
      by auto
    then have f: "finditer i (c # cs) = (i, y) # finditer (i + length y + 4) (drop (length y + 3) cs)"
      by simp
    consider "k = 0" | "0 < k" "k < length y + 4" | "length y + 4 \<le> k" by linarith
    then show ?thesis
    proof cases
      case 1
      with "2.prems" b y have "x = y" by (simp add: match_at_Cons_0)
      with 1 f show ?thesis by simp
    next
      case 2
      with f show ?thesis by simp
    next
      case 3
      define k' where "k' = k - (length y + 4)"
      with 3 have k: "k = Suc (length y + 3 + k')" by simp
      from "2.prems" have "match_at (c # cs) (Suc (length y + 3 + k')) = Some x"
        by (simp only: k)
      then have "match_at cs (length y + 3 + k') = Some x"
        by (simp only: match_at_Cons_Suc)
      then have "match_at (drop (length y + 3) cs) k' = Some x"
        by (simp only: match_at_drop)
      note m = this
      have eq: "i + length y + 4 + k' = i + k" using k by simp
      let ?R = "finditer (i + length y + 4) (drop (length y + 3) cs)"
      from "2.IH"(2) [OF b y m]
      have "(i + k, x) \<in> set ?R \<or> (\<exists>(j, z) \<in> set ?R. j < i + k \<and> i + k < j + length z + 4)"
        unfolding eq .
      then show ?thesis unfolding f by auto
    qed
  qed
qed

lemma finditer_apart:
  "sorted_wrt (\<lambda>p q. fst p + length (snd p) + 4 \<le> fst q) (finditer i s)"
proof (induction i s rule: finditer.induct)
  case (1 i)
  then show ?case by simp
next
  case (2 i c cs)
  show ?case
  proof (cases "c = CHR ''{'' \<and> take 1 cs = ''{''")
    case False
    with "2.IH"(3) [OF False] show ?thesis by auto
  next
    case True
    show ?thesis
    proof (cases "capture (drop 1 cs)")
      case None
      with True "2.IH"(1) [OF True None] show ?thesis by simp
    next
      case (Some y)
      have "\<forall>q \<in> set (finditer (i + length y + 4) (drop (length y + 3) cs)).
              i + length y + 4 \<le> fst q"
        using finditer_ge by (metis prod.collapse)
      with True Some "2.IH"(2) [OF True Some] show ?thesis by simp
    qed
  qed
qed

text \<open>
  On a template written as text without \<open>{\<close> and tokens \<open>{{x}}\<close> whose names have no
  \<open>}\<close> and no newline, the scan finds the names of the tokens, in their order.
\<close>

lemma capture_plain:
  "CHR ''}'' \<notin> set x \<Longrightarrow> CHR 0x0A \<notin> set x \<Longrightarrow> capture (x @ ''}}'' @ r) = Some x"
  by (induction x) auto

lemma finditer_text:
  "CHR ''{'' \<notin> set g \<Longrightarrow> finditer i (g @ s) = finditer (i + length g) s"
  by (induction g arbitrary: i) auto

lemma finditer_hole:
  assumes "CHR ''}'' \<notin> set x" and "CHR 0x0A \<notin> set x"
  shows "finditer i (''{{'' @ x @ ''}}'' @ s) = (i, x) # finditer (i + length x + 4) s"
proof -
  have "drop (length x + 3) (CHR ''{'' # x @ ''}}'' @ s) = s"
    by (simp add: drop_Cons' add.commute)
  with capture_plain [OF assms, of s] show ?thesis by simp
qed

lemma finditer_render:
  "list_all plain segs \<Longrightarrow> map snd (finditer i (render segs)) = holes segs"
proof (induction segs arbitrary: i)
  case Nil
  then show ?case by simp
next
  case (Cons seg segs)
  then show ?case
    by (cases seg) (simp_all add: finditer_text finditer_hole del: finditer.simps append.simps)
qed

lemma findall_render: "list_all plain segs \<Longrightarrow> findall (render segs) = holes segs"
  by (simp add: findall_def finditer_render)

lemma validate_template_render:
  "list_all plain segs \<Longrightarrow>
   validate_template (render segs) columns = filter (\<lambda>x. x \<notin> set columns) (holes segs)"
  by (simp add: validate_template_def findall_render)

subsection \<open>Claim C1\<close>

text \<open>
  C1, as amended. The placeholders that are checked are the matches kept by the scan:
  the leftmost matches of \<open>{{\<close>, the shortest text \<open>x\<close> without a newline, \<open>}}\<close>, none
  overlapping another. For every template \<open>T\<close> and every list of column names \<open>C\<close>,
  \<open>validate_template\<close> returns the empty list if and only if every kept match has its
  \<open>x\<close> among \<open>C\<close>, and its result is the names of the kept matches that are not among
  \<open>C\<close>, in the order of their positions in \<open>T\<close>. Each kept match is a match of the
  pattern at its position; a match of the pattern at any position of \<open>T\<close> is kept or
  begins inside a kept one. So when every \<open>{{x}}\<close> of \<open>T\<close> has \<open>x\<close> among \<open>C\<close> the
  result is empty.
\<close>

theorem validate_template_empty_iff:
  "(validate_template T C = [] \<longleftrightarrow> (\<forall>(i, x) \<in> set (finditer 0 T). x \<in> set C))
   \<and> validate_template T C = map snd (filter (\<lambda>(i, x). x \<notin> set C) (finditer 0 T))
   \<and> sorted_wrt (\<lambda>p q. fst p + length (snd p) + 4 \<le> fst q) (finditer 0 T)
   \<and> (\<forall>(i, x) \<in> set (finditer 0 T).
         match_at T i = Some x \<and> take (length x + 4) (drop i T) = ''{{'' @ x @ ''}}'')
   \<and> (\<forall>i x. match_at T i = Some x \<longrightarrow>
         (i, x) \<in> set (finditer 0 T)
         \<or> (\<exists>(j, y) \<in> set (finditer 0 T). j < i \<and> i < j + length y + 4))
   \<and> ((\<forall>i x. match_at T i = Some x \<longrightarrow> x \<in> set C) \<longrightarrow> validate_template T C = [])"
proof -
  have a: "validate_template T C = map snd (filter (\<lambda>(i, x). x \<notin> set C) (finditer 0 T))"
    by (simp add: validate_template_def findall_def filter_map comp_def case_prod_unfold)
  have b: "validate_template T C = [] \<longleftrightarrow> (\<forall>(i, x) \<in> set (finditer 0 T). x \<in> set C)"
    unfolding a by (auto simp: filter_empty_conv)
  have c: "\<forall>(i, x) \<in> set (finditer 0 T).
         match_at T i = Some x \<and> take (length x + 4) (drop i T) = ''{{'' @ x @ ''}}''"
    using finditer_occurs [of _ _ 0 T] finditer_sound [of _ _ 0 T] by auto
  have d: "\<forall>i x. match_at T i = Some x \<longrightarrow>
         (i, x) \<in> set (finditer 0 T)
         \<or> (\<exists>(j, y) \<in> set (finditer 0 T). j < i \<and> i < j + length y + 4)"
    using finditer_complete [of T _ _ 0] by simp
  have e: "(\<forall>i x. match_at T i = Some x \<longrightarrow> x \<in> set C) \<longrightarrow> validate_template T C = []"
    using b c by blast
  from a b c d e finditer_apart [of 0 T] show ?thesis by blast
qed

theorem validate_template_empty_iff_witness:
  "finditer 0 ''Hi {{Name}}, {{Email}}'' = [(3, ''Name''), (13, ''Email'')]
   \<and> match_at ''Hi {{Name}}, {{Email}}'' 13 = Some ''Email''
   \<and> list_all (\<lambda>(i, x). x \<in> set [''Name'', ''Email'']) (finditer 0 ''Hi {{Name}}, {{Email}}'')
   \<and> validate_template ''Hi {{Name}}, {{Email}}'' [''Name'', ''Email''] = []
   \<and> validate_template ''Hi {{Name}}, {{Email}}'' [''Name''] = [''Email'']"
  using validate_template_empty_iff [of "''Hi {{Name}}, {{Email}}''" "[''Name'', ''Email'']"]
  by (simp add: validate_template_def findall_def match_at_def)

text \<open>
  C1 as stated says that an empty result means that every \<open>{{x}}\<close> occurring in \<open>T\<close>
  has \<open>x\<close> among \<open>C\<close>. In \<open>{{{a}}\<close> the scan keeps the match with the name \<open>{a\<close>;
  \<open>{{a}}\<close> begins inside it and is never checked: with the one column \<open>{a\<close> the
  result is empty although \<open>a\<close> is not a column.
\<close>

theorem placeholder_inside_placeholder_unchecked:
  "validate_template ''{{{a}}'' [''{a''] = []
   \<and> match_at ''{{{a}}'' 1 = Some ''a''
   \<and> ''a'' \<notin> set [''{a'']"
  by (simp add: validate_template_def findall_def match_at_def)

subsection \<open>The state and the steps before the loop\<close>

lemma calls_emit [simp]: "calls (emit l st) = calls st"
  and audit_emit [simp]: "audit (emit l st) = audit st"
  and tick_emit [simp]: "tick (emit l st) = tick st"
  by (simp_all add: emit_def)

lemma calls_contact [simp]: "calls (contact c st) = calls st @ [c]"
  and audit_contact [simp]: "audit (contact c st) = audit st"
  and tick_contact [simp]: "tick (contact c st) = tick st + 1"
  by (simp_all add: contact_def)

lemma calls_advance [simp]: "calls (advance st) = calls st"
  and audit_advance [simp]: "audit (advance st) = audit st"
  and tick_advance [simp]: "tick (advance st) = tick st + 1"
  by (simp_all add: advance_def)

lemma choose_run_id_state:
  "choose_run_id e d st = (run_id, st0) \<Longrightarrow> calls st0 = calls st \<and> audit st0 = audit st"
  by (auto simp: choose_run_id_def split: if_splits)

lemma lambda_handler_try_valid:
  assumes "json_loads_body ev = Inr (PDict d)"
    and "truthy (dict_get d ''template_file_id'')"
    and "truthy (dict_get d ''spreadsheet_file_id'')"
    and "truthy (dict_get d ''subject'')"
    and "truthy (dict_get d ''display_name'')"
    and "choose_run_id e d st = (run_id, st0)"
  shows "lambda_handler_try e ev st =
           fetch_and_dispatch e run_id (dict_get d ''template_file_id'')
             (dict_get d ''spreadsheet_file_id'') (dict_get d ''subject'')
             (dict_get d ''display_name'') st0"
  using assms by (simp add: lambda_handler_try_def)

lemma get_template_ok:
  "s3_get_text e tid = Inr T \<Longrightarrow> get_template e tid st = (Inr T, contact (S3GetTemplate tid) st)"
  by (simp add: get_template_def)

lemma get_template_raises:
  "s3_get_text e tid = Inl ex \<Longrightarrow>
   get_template e tid st = (Inl ex, emit (LogErrorIn ''get_template'' ex) (contact (S3GetTemplate tid) st))"
  by (simp add: get_template_def)

lemma read_sheet_ok:
  "s3_read_excel e sid = Inr df \<Longrightarrow> \<not> df_empty df \<Longrightarrow>
   read_sheet_data_from_s3 e sid st = (Inr (Pair2 (df_records df) (df_columns df)), contact (S3ReadSheet sid) st)"
  by (simp add: read_sheet_data_from_s3_def)

lemma read_sheet_empty:
  "s3_read_excel e sid = Inr df \<Longrightarrow> df_empty df \<Longrightarrow>
   read_sheet_data_from_s3 e sid st = (Inr (Triple3 [] 0 True), contact (S3ReadSheet sid) st)"
  by (simp add: read_sheet_data_from_s3_def)

lemma read_sheet_raises:
  "s3_read_excel e sid = Inl ex \<Longrightarrow>
   read_sheet_data_from_s3 e sid st =
     (Inl ex, emit (LogErrorIn ''read_sheet_data_from_s3'' ex) (contact (S3ReadSheet sid) st))"
  by (simp add: read_sheet_data_from_s3_def)

lemma fetch_and_dispatch_loop:
  assumes "s3_get_text e tid = Inr T" and "s3_read_excel e sid = Inr df" and "\<not> df_empty df"
    and "validate_template T (df_columns df) = []"
  shows "fetch_and_dispatch e run_id tid sid title dn st0 =
     (case dispatch_rows e run_id tid sid title dn T (df_records df) []
             (contact (S3ReadSheet sid) (contact (S3GetTemplate tid) st0)) of
        (Inl ex, st3) \<Rightarrow> (Inl ex, st3)
      | (Inr failed, st3) \<Rightarrow> (case run_response e run_id failed st3 of (r, st4) \<Rightarrow> (Inr r, st4)))"
  using assms by (simp add: fetch_and_dispatch_def get_template_ok read_sheet_ok)


lemma fetch_and_dispatch_empty:
  assumes "s3_get_text e tid = Inr T" and "s3_read_excel e sid = Inr df" and "df_empty df"
  shows "fetch_and_dispatch e run_id tid sid title dn st0 =
     (Inl (Exn ValueError unpack_message),
      contact (S3ReadSheet sid) (contact (S3GetTemplate tid) st0))"
  using assms by (simp add: fetch_and_dispatch_def get_template_ok read_sheet_empty)

text \<open>The fields of the complete request.\<close>

lemma fields_full_get:
  "dict_get fields_full ''template_file_id'' = PStr ''welcome.html''"
  "dict_get fields_full ''spreadsheet_file_id'' = PStr ''people.xlsx''"
  "dict_get fields_full ''subject'' = PStr ''Welcome''"
  "dict_get fields_full ''display_name'' = PStr ''Cloud Team''"
  "dict_get fields_full ''run_id'' = PNone"
  by (simp_all add: fields_full_def dict_get_def dict_get_default_def)

subsection \<open>Claim C3\<close>

text \<open>An absent field reads as \<open>None\<close>, which is not truthy.\<close>

lemma dict_get_absent: "k \<notin> fst ` set d \<Longrightarrow> dict_get d k = PNone"
  using map_of_eq_None_iff [of d k] by (simp add: dict_get_def dict_get_default_def)

text \<open>
  C3, as amended. When the request has no body or its body parses to a JSON object, and
  one of \<open>template_file_id\<close>, \<open>spreadsheet_file_id\<close>, \<open>subject\<close>, \<open>display_name\<close> is
  absent (or otherwise not truthy), the handler answers 400 with one fixed message,
  whichever field is missing, and the calls to the object store, the provider and the
  audit table are the ones made before: none is added.
\<close>

theorem lambda_handler_missing_field:
  assumes "json_loads_body ev = Inr (PDict d)"
    and "\<not> truthy (dict_get d ''template_file_id'') \<or> \<not> truthy (dict_get d ''spreadsheet_file_id'')
         \<or> \<not> truthy (dict_get d ''subject'') \<or> \<not> truthy (dict_get d ''display_name'')"
  shows "fst (lambda_handler e ev st) =
           \<lparr>statusCode = 400,
            body = PStr ''Missing template_file_id, spreadsheet_id, email_title, or display_name''\<rparr>
         \<and> calls (snd (lambda_handler e ev st)) = calls st
         \<and> audit (snd (lambda_handler e ev st)) = audit st"
proof -
  obtain run_id st0 where r: "choose_run_id e d st = (run_id, st0)"
    by (cases "choose_run_id e d st")
  with assms have "lambda_handler_try e ev st =
      (Inr \<lparr>statusCode = 400, body = PStr missing_fields_message\<rparr>, st0)"
    by (simp add: lambda_handler_try_def)
  with choose_run_id_state [OF r] show ?thesis
    by (simp add: lambda_handler_def missing_fields_message_def)
qed

theorem lambda_handler_missing_field_witness:
  "fst (lambda_handler env_two_rows request_no_display_name initial) =
     \<lparr>statusCode = 400,
      body = PStr ''Missing template_file_id, spreadsheet_id, email_title, or display_name''\<rparr>
   \<and> calls (snd (lambda_handler env_two_rows request_no_display_name initial)) = []"
  using lambda_handler_missing_field [of request_no_display_name
      "[(''template_file_id'', PStr ''welcome.html''),
        (''spreadsheet_file_id'', PStr ''people.xlsx''),
        (''subject'', PStr ''Welcome'')]" env_two_rows initial]
  by (simp add: request_no_display_name_def dict_get_def dict_get_default_def initial_def)

text \<open>
  C3 as stated covers every request in which a field is absent and has the body name
  the missing fields. A body that is not a JSON object (here a list, and a body on which
  \<open>json.loads\<close> raises \<open>TypeError\<close>) has none of the fields and is answered with 500;
  and the 400 body is the same text when \<open>subject\<close> is missing as when
  \<open>display_name\<close> is: it says \<open>email_title\<close> and \<open>spreadsheet_id\<close>, not \<open>subject\<close> and
  \<open>spreadsheet_file_id\<close>.
\<close>

theorem body_not_an_object_answers_500:
  "statusCode (fst (lambda_handler env_two_rows (Parsed (PList [])) initial)) = 500
   \<and> statusCode (fst (lambda_handler env_two_rows
        (Unparsable (Exn TypeError ''the JSON object must be str, bytes or bytearray, not NoneType''))
        initial)) = 500
   \<and> fst (lambda_handler env_two_rows request_no_subject initial) =
       \<lparr>statusCode = 400,
        body = PStr ''Missing template_file_id, spreadsheet_id, email_title, or display_name''\<rparr>
   \<and> fst (lambda_handler env_two_rows request_no_display_name initial) =
       \<lparr>statusCode = 400,
        body = PStr ''Missing template_file_id, spreadsheet_id, email_title, or display_name''\<rparr>"
  by (simp add: lambda_handler_def lambda_handler_try_def choose_run_id_def
      request_no_subject_def request_no_display_name_def dict_get_def dict_get_default_def
      missing_fields_message_def Let_def)

subsection \<open>Claim C4\<close>



subsection \<open>Claim C2\<close>

text \<open>
  For an empty table \<open>read_sheet_data_from_s3\<close> returns three values, the handler
  unpacks two, and the \<open>ValueError\<close> becomes the 500 response.
\<close>

lemma lambda_handler_empty:
  assumes "json_loads_body ev = Inr (PDict d)"
    and "truthy (dict_get d ''template_file_id'')"
    and "truthy (dict_get d ''spreadsheet_file_id'')"
    and "truthy (dict_get d ''subject'')"
    and "truthy (dict_get d ''display_name'')"
    and "s3_get_text e (dict_get d ''template_file_id'') = Inr T"
    and "s3_read_excel e (dict_get d ''spreadsheet_file_id'') = Inr df"
    and "df_empty df"
  shows "fst (lambda_handler e ev st) =
           \<lparr>statusCode = 500,
            body = PStr ''Internal server error: too many values to unpack (expected 2)''\<rparr>
         \<and> calls (snd (lambda_handler e ev st)) =
             calls st @ [S3GetTemplate (dict_get d ''template_file_id''),
                         S3ReadSheet (dict_get d ''spreadsheet_file_id'')]
         \<and> audit (snd (lambda_handler e ev st)) = audit st"
proof -
  obtain run_id st0 where r: "choose_run_id e d st = (run_id, st0)"
    by (cases "choose_run_id e d st")
  from lambda_handler_try_valid [OF assms(1-5) r] fetch_and_dispatch_empty [OF assms(6-8)]
    choose_run_id_state [OF r]
  show ?thesis by (simp add: lambda_handler_def unpack_message_def)
qed

text \<open>
  C2. The claim is that a run over a table without rows ends in a success response.
  On the spreadsheet with a header row and no data row the handler answers 500; it
  sends no message and writes no audit item.
\<close>

theorem lambda_handler_empty_table_500:
  "fst (lambda_handler env_empty_table request_full initial) =
     \<lparr>statusCode = 500,
      body = PStr ''Internal server error: too many values to unpack (expected 2)''\<rparr>
   \<and> calls (snd (lambda_handler env_empty_table request_full initial)) =
       [S3GetTemplate (PStr ''welcome.html''), S3ReadSheet (PStr ''people.xlsx'')]
   \<and> audit (snd (lambda_handler env_empty_table request_full initial)) = []"
  using lambda_handler_empty [of request_full
      fields_full env_empty_table
      "''Hi {{Name}}''"
      "\<lparr>df_columns = [''Name'', ''Email''], df_records = []\<rparr>" initial]
  by (simp add: request_full_def fields_full_def table_two_rows_def env_empty_table_def env_two_rows_def dict_get_def
      dict_get_default_def initial_def df_empty_def)

subsection \<open>The loop\<close>

lemma put_items_append [simp]: "put_items (xs @ ys) = put_items xs @ put_items ys"
  by (induction xs rule: put_items.induct) simp_all

lemma sent_messages_append [simp]: "sent_messages (xs @ ys) = sent_messages xs @ sent_messages ys"
  by (induction xs rule: sent_messages.induct) simp_all

lemma send_email_no_address:
  "\<not> truthy (dict_get row ''Email'') \<Longrightarrow>
   send_email e title T row dn st =
     ((''Failed'', ''FAILED''), emit (LogNoEmail (dict_get_default row ''Name'' (PStr ''Unknown''))) st)"
  by (simp add: send_email_def)

lemma send_email_frame:
  assumes "send_email e title T row dn st = ((t, status), st1)"
  shows "(status = ''FAILED'' \<or> status = ''SUCCESS'')
         \<and> audit st1 = audit st
         \<and> put_items (calls st1) = put_items (calls st)"
  using assms
  by (auto simp: send_email_def Let_def split: if_splits sum.splits option.splits)



lemma lambda_handler_after_loop:
  assumes "json_loads_body ev = Inr (PDict d)"
    and "truthy (dict_get d ''template_file_id'')"
    and "truthy (dict_get d ''spreadsheet_file_id'')"
    and "truthy (dict_get d ''subject'')"
    and "truthy (dict_get d ''display_name'')"
    and "choose_run_id e d st = (run_id, st0)"
    and "s3_get_text e (dict_get d ''template_file_id'') = Inr T"
    and "s3_read_excel e (dict_get d ''spreadsheet_file_id'') = Inr df"
    and "\<not> df_empty df"
    and "validate_template T (df_columns df) = []"
    and "dispatch_rows e run_id (dict_get d ''template_file_id'')
           (dict_get d ''spreadsheet_file_id'') (dict_get d ''subject'')
           (dict_get d ''display_name'') T (df_records df) []
           (contact (S3ReadSheet (dict_get d ''spreadsheet_file_id''))
              (contact (S3GetTemplate (dict_get d ''template_file_id'')) st0)) = (Inr failed, st3)"
  shows "lambda_handler e ev st = run_response e run_id failed st3"
  using lambda_handler_try_valid [OF assms(1-6)] fetch_and_dispatch_loop [OF assms(7-10)] assms(11)
  by (simp add: lambda_handler_def split: prod.splits)

lemma lambda_handler_loop_raises:
  assumes "json_loads_body ev = Inr (PDict d)"
    and "truthy (dict_get d ''template_file_id'')"
    and "truthy (dict_get d ''spreadsheet_file_id'')"
    and "truthy (dict_get d ''subject'')"
    and "truthy (dict_get d ''display_name'')"
    and "choose_run_id e d st = (run_id, st0)"
    and "s3_get_text e (dict_get d ''template_file_id'') = Inr T"
    and "s3_read_excel e (dict_get d ''spreadsheet_file_id'') = Inr df"
    and "\<not> df_empty df"
    and "validate_template T (df_columns df) = []"
    and "dispatch_rows e run_id (dict_get d ''template_file_id'')
           (dict_get d ''spreadsheet_file_id'') (dict_get d ''subject'')
           (dict_get d ''display_name'') T (df_records df) []
           (contact (S3ReadSheet (dict_get d ''spreadsheet_file_id''))
              (contact (S3GetTemplate (dict_get d ''template_file_id'')) st0)) = (Inl ex, st3)"
  shows "lambda_handler e ev st =
     (\<lparr>statusCode = 500, body = PStr (''Internal server error: '' @ exn_str ex)\<rparr>,
      emit (LogErrorIn ''lambda_handler'' ex) st3)"
  using lambda_handler_try_valid [OF assms(1-6)] fetch_and_dispatch_loop [OF assms(7-10)] assms(11)
  by (simp add: lambda_handler_def)

lemma run_response_state:
  "calls (snd (run_response e run_id failed st)) = calls st
   \<and> audit (snd (run_response e run_id failed st)) = audit st"
  by (simp add: run_response_def Let_def)

lemma run_response_status:
  "statusCode (fst (run_response e run_id failed st)) = (if failed \<noteq> [] then 207 else 200)"
  by (simp add: run_response_def Let_def)

subsection \<open>Claim C6\<close>





subsection \<open>The loop's result and the response\<close>

lemma save_to_dynamodb_Inr:
  assumes "save_to_dynamodb e it st = (Inr u, st1)"
  shows "calls st1 = calls st @ [DynamoPutItem it]"
  using assms by (auto simp: save_to_dynamodb_def Let_def split: option.splits if_splits)

lemma dispatch_rows_Inr:
  "dispatch_rows e rid tid sid title dn T rows failed0 st = (Inr failed, st') \<Longrightarrow>
   \<exists>items. put_items (calls st') = put_items (calls st) @ items
     \<and> map item_recipient_email items = map (\<lambda>r. dict_get r ''Email'') rows
     \<and> failed = failed0 @ map item_recipient_email (filter (\<lambda>it. item_status it = ''FAILED'') items)"
proof (induction rows arbitrary: failed0 st)
  case Nil
  then show ?case by simp
next
  case (Cons row rows)
  obtain t status st1 where se: "send_email e title T row dn st = ((t, status), st1)"
    by (metis surj_pair)
  define it where "it = \<lparr>item_run_id = rid, item_email_id = uuid4_hex e (tick st1),
      item_display_name = dn, item_status = status,
      item_recipient_email = dict_get row ''Email'', item_template_file_id = tid,
      item_spreadsheet_file_id = sid,
      item_created_at = strftime e (now e (tick (advance st1)))\<rparr>"
  define failed1 where
    "failed1 = (if status = ''FAILED'' then failed0 @ [dict_get row ''Email''] else failed0)"
  obtain x st4 where sv: "save_to_dynamodb e it (advance (advance st1)) = (x, st4)"
    by (metis surj_pair)
  from Cons.prems se sv obtain u where x: "x = Inr u"
    by (cases x) (simp_all add: it_def Let_def)
  from Cons.prems se sv x have
    d: "dispatch_rows e rid tid sid title dn T rows failed1 st4 = (Inr failed, st')"
    by (simp add: it_def failed1_def Let_def)
  from Cons.IH [OF d] obtain items where
    p: "put_items (calls st') = put_items (calls st4) @ items"
    and r: "map item_recipient_email items = map (\<lambda>r. dict_get r ''Email'') rows"
    and f: "failed = failed1 @ map item_recipient_email
              (filter (\<lambda>it. item_status it = ''FAILED'') items)"
    by blast
  from save_to_dynamodb_Inr [OF sv [unfolded x]] have c4: "calls st4 = calls st1 @ [DynamoPutItem it]"
    by simp
  from send_email_frame [OF se] have fr: "put_items (calls st1) = put_items (calls st)"
    by simp
  show ?case
  proof (intro exI [of _ "it # items"] conjI)
    show "put_items (calls st') = put_items (calls st) @ it # items"
      using p c4 fr by simp
    show "map item_recipient_email (it # items) = map (\<lambda>r. dict_get r ''Email'') (row # rows)"
      using r by (simp add: it_def)
    show "failed = failed0 @ map item_recipient_email
            (filter (\<lambda>it. item_status it = ''FAILED'') (it # items))"
      using f by (simp add: failed1_def it_def)
  qed
qed

lemma run_response_fields:
  "field (body (fst (run_response e run_id failed st))) ''status'' = Some (PStr ''success'')
   \<and> field (body (fst (run_response e run_id failed st))) ''request_id'' = Some run_id
   \<and> field (body (fst (run_response e run_id failed st))) ''timestamp''
       = Some (PStr (strftime e (now e (tick st))))
   \<and> field (body (fst (run_response e run_id failed st))) ''sqs_message_id''
       = Some (PStr (uuid4_hex e (tick st + 1)))
   \<and> field (body (fst (run_response e run_id failed st))) ''failed_recipients''
       = (if failed = [] then None else Some (PList failed))"
  by (simp add: run_response_def Let_def)

text \<open>The run over the two rows, evaluated.\<close>

lemma choose_run_id_two_rows:
  "choose_run_id env_two_rows fields_full initial = (PStr ''0f3c'', advance initial)"
  by (simp add: choose_run_id_def fields_full_get env_two_rows_def initial_def)

lemma choose_run_id_delivered:
  "choose_run_id env_delivered fields_full initial = (PStr ''0f3c'', advance initial)"
  by (simp add: choose_run_id_def fields_full_get env_delivered_def env_two_rows_def initial_def)

lemma loop_two_rows:
  "fst (dispatch_rows env_two_rows (PStr ''0f3c'') (PStr ''welcome.html'') (PStr ''people.xlsx'')
     (PStr ''Welcome'') (PStr ''Cloud Team'') ''Hi {{Name}}'' [row_ann, row_bob] []
     (contact (S3ReadSheet (PStr ''people.xlsx''))
        (contact (S3GetTemplate (PStr ''welcome.html'')) (advance initial))))
   = Inr [PStr ''bob@example.org'']"
  by (simp add: send_email_def save_to_dynamodb_def env_two_rows_def row_ann_def row_bob_def
      dict_get_def dict_get_default_def emit_def contact_def advance_def initial_def Let_def)

lemma loop_delivered:
  "fst (dispatch_rows env_delivered (PStr ''0f3c'') (PStr ''welcome.html'') (PStr ''people.xlsx'')
     (PStr ''Welcome'') (PStr ''Cloud Team'') ''Hi {{Name}}'' [row_ann, row_bob] []
     (contact (S3ReadSheet (PStr ''people.xlsx''))
        (contact (S3GetTemplate (PStr ''welcome.html'')) (advance initial))))
   = Inr []"
  by (simp add: send_email_def save_to_dynamodb_def env_delivered_def env_two_rows_def
      row_ann_def row_bob_def
      dict_get_def dict_get_default_def emit_def contact_def advance_def initial_def Let_def)

lemma validate_two_rows: "validate_template ''Hi {{Name}}'' (df_columns table_two_rows) = []"
  by (simp add: validate_template_def findall_def table_two_rows_def)

subsection \<open>Claim C8\<close>

text \<open>
  C8, as amended. For a run that reaches the loop and whose loop runs to its end with
  the list \<open>failed_recipients\<close>: the status code is 207 if and only if the list is not
  empty, and then the body has the field \<open>failed_recipients\<close> with that list; it is 200
  if and only if the list is empty, and then the body has no such field. In both cases
  the body holds the run identifier (\<open>request_id\<close>), a timestamp and a generated
  \<open>sqs_message_id\<close>. The list holds the addresses of the items whose status is
  \<open>FAILED\<close>.
\<close>

theorem response_after_loop:
  assumes "json_loads_body ev = Inr (PDict d)"
    and "truthy (dict_get d ''template_file_id'')"
    and "truthy (dict_get d ''spreadsheet_file_id'')"
    and "truthy (dict_get d ''subject'')"
    and "truthy (dict_get d ''display_name'')"
    and "choose_run_id e d st = (run_id, st0)"
    and "s3_get_text e (dict_get d ''template_file_id'') = Inr T"
    and "s3_read_excel e (dict_get d ''spreadsheet_file_id'') = Inr df"
    and "\<not> df_empty df"
    and "validate_template T (df_columns df) = []"
    and "dispatch_rows e run_id (dict_get d ''template_file_id'')
           (dict_get d ''spreadsheet_file_id'') (dict_get d ''subject'')
           (dict_get d ''display_name'') T (df_records df) []
           (contact (S3ReadSheet (dict_get d ''spreadsheet_file_id''))
              (contact (S3GetTemplate (dict_get d ''template_file_id'')) st0)) = (Inr failed, st3)"
  shows "(statusCode (fst (lambda_handler e ev st)) = 207 \<longleftrightarrow> failed \<noteq> [])
     \<and> (statusCode (fst (lambda_handler e ev st)) = 200 \<longleftrightarrow> failed = [])
     \<and> field (body (fst (lambda_handler e ev st))) ''failed_recipients''
         = (if failed = [] then None else Some (PList failed))
     \<and> field (body (fst (lambda_handler e ev st))) ''request_id'' = Some run_id
     \<and> field (body (fst (lambda_handler e ev st))) ''timestamp''
         = Some (PStr (strftime e (now e (tick st3))))
     \<and> field (body (fst (lambda_handler e ev st))) ''sqs_message_id''
         = Some (PStr (uuid4_hex e (tick st3 + 1)))
     \<and> (\<exists>items. put_items (calls (snd (lambda_handler e ev st))) = put_items (calls st) @ items
           \<and> failed = map item_recipient_email (filter (\<lambda>it. item_status it = ''FAILED'') items))"
proof -
  note h = lambda_handler_after_loop [OF assms]
  from dispatch_rows_Inr [OF assms(11)] choose_run_id_state [OF assms(6)]
  obtain items where "put_items (calls st3) = put_items (calls st) @ items"
    and "failed = map item_recipient_email (filter (\<lambda>it. item_status it = ''FAILED'') items)"
    by auto
  then have "\<exists>items. put_items (calls (snd (lambda_handler e ev st))) = put_items (calls st) @ items
           \<and> failed = map item_recipient_email (filter (\<lambda>it. item_status it = ''FAILED'') items)"
    by (auto simp: h run_response_state)
  with run_response_fields [of e run_id failed st3] show ?thesis
    by (simp add: h run_response_status)
qed

theorem response_after_loop_witness:
  "statusCode (fst (lambda_handler env_two_rows request_full initial)) = 207
   \<and> field (body (fst (lambda_handler env_two_rows request_full initial))) ''failed_recipients''
       = Some (PList [PStr ''bob@example.org''])
   \<and> field (body (fst (lambda_handler env_two_rows request_full initial))) ''request_id''
       = Some (PStr ''0f3c'')
   \<and> statusCode (fst (lambda_handler env_delivered request_full initial)) = 200
   \<and> field (body (fst (lambda_handler env_delivered request_full initial))) ''failed_recipients''
       = None"
proof -
  let ?st2 = "contact (S3ReadSheet (PStr ''people.xlsx''))
        (contact (S3GetTemplate (PStr ''welcome.html'')) (advance initial))"
  let ?loop = "\<lambda>e. dispatch_rows e (PStr ''0f3c'') (PStr ''welcome.html'') (PStr ''people.xlsx'')
     (PStr ''Welcome'') (PStr ''Cloud Team'') ''Hi {{Name}}'' [row_ann, row_bob] [] ?st2"
  have ev: "json_loads_body request_full = Inr (PDict fields_full)"
    by (simp add: request_full_def)
  have ne: "\<not> df_empty table_two_rows"
    by (simp add: df_empty_def table_two_rows_def)
  have rows: "df_records table_two_rows = [row_ann, row_bob]"
    by (simp add: table_two_rows_def)
  have a: "?loop env_two_rows = (Inr [PStr ''bob@example.org''], snd (?loop env_two_rows))"
    using loop_two_rows by (simp add: prod_eq_iff del: dispatch_rows.simps)
  have b: "?loop env_delivered = (Inr [], snd (?loop env_delivered))"
    using loop_delivered by (simp add: prod_eq_iff del: dispatch_rows.simps)
  have "s3_get_text env_two_rows (PStr ''welcome.html'') = Inr ''Hi {{Name}}''"
    and "s3_read_excel env_two_rows (PStr ''people.xlsx'') = Inr table_two_rows"
    and "s3_get_text env_delivered (PStr ''welcome.html'') = Inr ''Hi {{Name}}''"
    and "s3_read_excel env_delivered (PStr ''people.xlsx'') = Inr table_two_rows"
    by (simp_all add: env_two_rows_def env_delivered_def)
  with response_after_loop [of request_full fields_full env_two_rows initial "PStr ''0f3c''"
      "advance initial" "''Hi {{Name}}''" table_two_rows "[PStr ''bob@example.org'']"
      "snd (?loop env_two_rows)"]
    response_after_loop [of request_full fields_full env_delivered initial "PStr ''0f3c''"
      "advance initial" "''Hi {{Name}}''" table_two_rows "[]" "snd (?loop env_delivered)"]
    ev ne rows a b choose_run_id_two_rows choose_run_id_delivered validate_two_rows
  show ?thesis
    by (simp add: fields_full_get del: dispatch_rows.simps)
qed

text \<open>The run with the audit table that times out, evaluated.\<close>

lemma loop_put_timeout:
  "fst (dispatch_rows env_put_timeout (PStr ''0f3c'') (PStr ''welcome.html'') (PStr ''people.xlsx'')
     (PStr ''Welcome'') (PStr ''Cloud Team'') ''Hi {{Name}}'' [row_ann, row_bob] []
     (contact (S3ReadSheet (PStr ''people.xlsx''))
        (contact (S3GetTemplate (PStr ''welcome.html'')) (advance initial))))
   = Inl (Exn OtherException ''Connect timeout on endpoint URL'')
   \<and> map msg_to_address (sent_messages (calls (snd (dispatch_rows env_put_timeout (PStr ''0f3c'')
     (PStr ''welcome.html'') (PStr ''people.xlsx'')
     (PStr ''Welcome'') (PStr ''Cloud Team'') ''Hi {{Name}}'' [row_ann, row_bob] []
     (contact (S3ReadSheet (PStr ''people.xlsx''))
        (contact (S3GetTemplate (PStr ''welcome.html'')) (advance initial)))))))
     = [PStr ''ann@example.org'']"
  by (simp add: send_email_def save_to_dynamodb_def env_put_timeout_def env_two_rows_def
      row_ann_def row_bob_def
      dict_get_def dict_get_default_def emit_def contact_def advance_def initial_def Let_def)

lemma run_put_timeout:
  "fst (lambda_handler env_put_timeout request_full initial) =
     \<lparr>statusCode = 500, body = PStr ''Internal server error: Connect timeout on endpoint URL''\<rparr>
   \<and> map msg_to_address
        (sent_messages (calls (snd (lambda_handler env_put_timeout request_full initial))))
       = [PStr ''ann@example.org'']"
proof -
  let ?st2 = "contact (S3ReadSheet (PStr ''people.xlsx''))
        (contact (S3GetTemplate (PStr ''welcome.html'')) (advance initial))"
  let ?loop = "dispatch_rows env_put_timeout (PStr ''0f3c'') (PStr ''welcome.html'')
     (PStr ''people.xlsx'') (PStr ''Welcome'') (PStr ''Cloud Team'') ''Hi {{Name}}''
     [row_ann, row_bob] [] ?st2"
  have a: "?loop = (Inl (Exn OtherException ''Connect timeout on endpoint URL''), snd ?loop)"
    using loop_put_timeout by (simp add: prod_eq_iff del: dispatch_rows.simps)
  have c: "choose_run_id env_put_timeout fields_full initial = (PStr ''0f3c'', advance initial)"
    by (simp add: choose_run_id_def fields_full_get env_put_timeout_def env_two_rows_def
        initial_def)
  have "s3_get_text env_put_timeout (PStr ''welcome.html'') = Inr ''Hi {{Name}}''"
    and "s3_read_excel env_put_timeout (PStr ''people.xlsx'') = Inr table_two_rows"
    and "json_loads_body request_full = Inr (PDict fields_full)"
    and "\<not> df_empty table_two_rows"
    and "df_records table_two_rows = [row_ann, row_bob]"
    by (simp_all add: env_put_timeout_def env_two_rows_def request_full_def df_empty_def
        table_two_rows_def)
  with lambda_handler_loop_raises [of request_full fields_full env_put_timeout initial
      "PStr ''0f3c''" "advance initial" "''Hi {{Name}}''" table_two_rows
      "Exn OtherException ''Connect timeout on endpoint URL''" "snd ?loop"]
    a c validate_two_rows
  have "lambda_handler env_put_timeout request_full initial =
     (\<lparr>statusCode = 500,
        body = PStr (''Internal server error: ''
                     @ exn_str (Exn OtherException ''Connect timeout on endpoint URL''))\<rparr>,
      emit (LogErrorIn ''lambda_handler'' (Exn OtherException ''Connect timeout on endpoint URL''))
        (snd ?loop))"
    by (simp add: fields_full_get del: dispatch_rows.simps)
  with loop_put_timeout show ?thesis
    by (simp del: dispatch_rows.simps)
qed

text \<open>
  C8 as stated covers every run that reaches the loop. With the audit table that times
  out the run reaches the loop and sends Ann's message, no row has failed, and the
  response is 500: neither 207 nor 200, and its body has no \<open>request_id\<close>.
\<close>

theorem aborted_loop_answers_500:
  "map msg_to_address
      (sent_messages (calls (snd (lambda_handler env_put_timeout request_full initial))))
     = [PStr ''ann@example.org'']
   \<and> statusCode (fst (lambda_handler env_put_timeout request_full initial)) = 500
   \<and> field (body (fst (lambda_handler env_put_timeout request_full initial))) ''request_id''
       = None
   \<and> field (body (fst (lambda_handler env_put_timeout request_full initial)))
       ''failed_recipients'' = None"
  using run_put_timeout by simp

subsection \<open>Claim C10\<close>



subsection \<open>Claim C9\<close>

lemma fetch_and_dispatch_template_raises:
  assumes "s3_get_text e tid = Inl ex"
  shows "fetch_and_dispatch e run_id tid sid title dn st0 =
     (Inl ex, emit (LogErrorIn ''get_template'' ex) (contact (S3GetTemplate tid) st0))"
  using assms by (simp add: fetch_and_dispatch_def get_template_raises)

lemma fetch_and_dispatch_sheet_raises:
  assumes "s3_get_text e tid = Inr T" and "s3_read_excel e sid = Inl ex"
  shows "fetch_and_dispatch e run_id tid sid title dn st0 =
     (Inl ex, emit (LogErrorIn ''read_sheet_data_from_s3'' ex)
                (contact (S3ReadSheet sid) (contact (S3GetTemplate tid) st0)))"
  using assms by (simp add: fetch_and_dispatch_def get_template_ok read_sheet_raises)

text \<open>
  C9, as amended. An exception that leaves the body of the handler's \<open>try\<close> is printed
  and becomes the response 500 whose body is \<open>Internal server error:\<close> followed by the
  exception's message \<open>str(e)\<close>. This is what happens when the template or the table
  cannot be fetched, and then no message is sent and no audit item is written.
\<close>

theorem internal_failure_response:
  "(lambda_handler_try e ev st = (Inl ex, st1) \<longrightarrow>
      lambda_handler e ev st =
        (\<lparr>statusCode = 500, body = PStr (''Internal server error: '' @ exn_str ex)\<rparr>,
         emit (LogErrorIn ''lambda_handler'' ex) st1))
   \<and> (json_loads_body ev = Inr (PDict d)
       \<and> truthy (dict_get d ''template_file_id'') \<and> truthy (dict_get d ''spreadsheet_file_id'')
       \<and> truthy (dict_get d ''subject'') \<and> truthy (dict_get d ''display_name'')
       \<and> (s3_get_text e (dict_get d ''template_file_id'') = Inl ex
            \<or> s3_get_text e (dict_get d ''template_file_id'') = Inr T
              \<and> s3_read_excel e (dict_get d ''spreadsheet_file_id'') = Inl ex) \<longrightarrow>
        fst (lambda_handler e ev st) =
          \<lparr>statusCode = 500, body = PStr (''Internal server error: '' @ exn_str ex)\<rparr>
        \<and> sent_messages (calls (snd (lambda_handler e ev st))) = sent_messages (calls st)
        \<and> put_items (calls (snd (lambda_handler e ev st))) = put_items (calls st)
        \<and> audit (snd (lambda_handler e ev st)) = audit st)"
proof (intro conjI impI)
  assume "lambda_handler_try e ev st = (Inl ex, st1)"
  then show "lambda_handler e ev st =
        (\<lparr>statusCode = 500, body = PStr (''Internal server error: '' @ exn_str ex)\<rparr>,
         emit (LogErrorIn ''lambda_handler'' ex) st1)"
    by (simp add: lambda_handler_def)
next
  assume a: "json_loads_body ev = Inr (PDict d)
       \<and> truthy (dict_get d ''template_file_id'') \<and> truthy (dict_get d ''spreadsheet_file_id'')
       \<and> truthy (dict_get d ''subject'') \<and> truthy (dict_get d ''display_name'')
       \<and> (s3_get_text e (dict_get d ''template_file_id'') = Inl ex
            \<or> s3_get_text e (dict_get d ''template_file_id'') = Inr T
              \<and> s3_read_excel e (dict_get d ''spreadsheet_file_id'') = Inl ex)"
  obtain run_id st0 where r: "choose_run_id e d st = (run_id, st0)"
    by (cases "choose_run_id e d st")
  from a have v: "json_loads_body ev = Inr (PDict d)" "truthy (dict_get d ''template_file_id'')"
    "truthy (dict_get d ''spreadsheet_file_id'')" "truthy (dict_get d ''subject'')"
    "truthy (dict_get d ''display_name'')"
    by simp_all
  note t = lambda_handler_try_valid [OF v r]
  from a consider "s3_get_text e (dict_get d ''template_file_id'') = Inl ex"
    | "s3_get_text e (dict_get d ''template_file_id'') = Inr T"
      "s3_read_excel e (dict_get d ''spreadsheet_file_id'') = Inl ex"
    by blast
  then have "fst (lambda_handler e ev st) =
          \<lparr>statusCode = 500, body = PStr (''Internal server error: '' @ exn_str ex)\<rparr>
        \<and> sent_messages (calls (snd (lambda_handler e ev st))) = sent_messages (calls st)
        \<and> put_items (calls (snd (lambda_handler e ev st))) = put_items (calls st)
        \<and> audit (snd (lambda_handler e ev st)) = audit st"
  proof cases
    case 1
    from t fetch_and_dispatch_template_raises [OF 1] choose_run_id_state [OF r]
    show ?thesis by (simp add: lambda_handler_def)
  next
    case 2
    from t fetch_and_dispatch_sheet_raises [OF 2] choose_run_id_state [OF r]
    show ?thesis by (simp add: lambda_handler_def)
  qed
  then show "fst (lambda_handler e ev st) =
          \<lparr>statusCode = 500, body = PStr (''Internal server error: '' @ exn_str ex)\<rparr>"
    and "sent_messages (calls (snd (lambda_handler e ev st))) = sent_messages (calls st)"
    and "put_items (calls (snd (lambda_handler e ev st))) = put_items (calls st)"
    and "audit (snd (lambda_handler e ev st)) = audit st"
    by simp_all
qed

lemma run_no_such_key:
  "lambda_handler_try env_no_such_key request_full initial =
    (Inl (Exn ClientError ''An error occurred (NoSuchKey) when calling the GetObject operation: The specified key does not exist.''),
     emit (LogErrorIn ''get_template'' (Exn ClientError ''An error occurred (NoSuchKey) when calling the GetObject operation: The specified key does not exist.''))
       (contact (S3GetTemplate (PStr ''welcome.html'')) (advance initial)))"
proof -
  have "choose_run_id env_no_such_key fields_full initial = (PStr ''0f3c'', advance initial)"
    by (simp add: choose_run_id_def fields_full_get env_no_such_key_def env_two_rows_def initial_def)
  from lambda_handler_try_valid [of request_full fields_full env_no_such_key initial, OF _ _ _ _ _ this]
    fetch_and_dispatch_template_raises [of env_no_such_key "PStr ''welcome.html''"
      "Exn ClientError ''An error occurred (NoSuchKey) when calling the GetObject operation: The specified key does not exist.''"]
  show ?thesis
    by (simp add: fields_full_get request_full_def env_no_such_key_def env_two_rows_def)
qed

theorem internal_failure_response_witness:
  "fst (lambda_handler env_no_such_key request_full initial) =
     \<lparr>statusCode = 500,
      body = PStr ''Internal server error: An error occurred (NoSuchKey) when calling the GetObject operation: The specified key does not exist.''\<rparr>
   \<and> calls (snd (lambda_handler env_no_such_key request_full initial))
       = [S3GetTemplate (PStr ''welcome.html'')]
   \<and> fst (lambda_handler env_bad_sheet request_full initial) =
     \<lparr>statusCode = 500, body = PStr ''Internal server error: File is not a zip file''\<rparr>
   \<and> audit (snd (lambda_handler env_bad_sheet request_full initial)) = []"
  using internal_failure_response [of env_no_such_key request_full initial
      "Exn ClientError ''An error occurred (NoSuchKey) when calling the GetObject operation: The specified key does not exist.''"
      "emit (LogErrorIn ''get_template'' (Exn ClientError ''An error occurred (NoSuchKey) when calling the GetObject operation: The specified key does not exist.''))
       (contact (S3GetTemplate (PStr ''welcome.html'')) (advance initial))"
      fields_full "''Hi {{Name}}''"]
    internal_failure_response [of env_bad_sheet request_full initial
      "Exn OtherException ''File is not a zip file''" initial fields_full "''Hi {{Name}}''"]
    run_no_such_key
  by (simp add: fields_full_get request_full_def env_no_such_key_def env_bad_sheet_def
      env_two_rows_def initial_def)

text \<open>
  C9 as stated asks for a generic message without internal detail. The body carries the
  text of the exception: the object store's error in one run, the JSON parser's in
  another, and the two bodies differ.
\<close>

theorem internal_failure_body_carries_exception_text:
  "fst (lambda_handler env_no_such_key request_full initial) =
     \<lparr>statusCode = 500,
      body = PStr ''Internal server error: An error occurred (NoSuchKey) when calling the GetObject operation: The specified key does not exist.''\<rparr>
   \<and> fst (lambda_handler env_two_rows (Unparsable (Exn ValueError ''Expecting value: line 1 column 1 (char 0)'')) initial) =
     \<lparr>statusCode = 500,
      body = PStr ''Internal server error: Expecting value: line 1 column 1 (char 0)''\<rparr>
   \<and> body (fst (lambda_handler env_no_such_key request_full initial))
       \<noteq> body (fst (lambda_handler env_two_rows (Unparsable (Exn ValueError ''Expecting value: line 1 column 1 (char 0)'')) initial))"
  using run_no_such_key
  by (simp add: lambda_handler_def lambda_handler_try_def)

subsection \<open>Claim C5\<close>

text \<open>
  A row whose address is not truthy (no \<open>Email\<close> key, \<open>None\<close>, the empty string) is
  skipped, as \<open>send_email_no_address\<close> says: no call is made and the status is
  \<open>FAILED\<close>. The run over Ann's row and a row with an empty \<open>Email\<close> cell, evaluated:
\<close>

lemma loop_blank_cell:
  "fst (dispatch_rows env_blank_cell (PStr ''0f3c'') (PStr ''welcome.html'') (PStr ''people.xlsx'')
     (PStr ''Welcome'') (PStr ''Cloud Team'') ''Hi {{Name}}'' [row_ann, row_blank] []
     (contact (S3ReadSheet (PStr ''people.xlsx''))
        (contact (S3GetTemplate (PStr ''welcome.html'')) (advance initial))))
   = Inr [PNaN]
   \<and> map msg_to_address (sent_messages (calls (snd (dispatch_rows env_blank_cell (PStr ''0f3c'')
     (PStr ''welcome.html'') (PStr ''people.xlsx'')
     (PStr ''Welcome'') (PStr ''Cloud Team'') ''Hi {{Name}}'' [row_ann, row_blank] []
     (contact (S3ReadSheet (PStr ''people.xlsx''))
        (contact (S3GetTemplate (PStr ''welcome.html'')) (advance initial)))))))
     = [PStr ''ann@example.org'', PNaN]"
  by (simp add: send_email_def save_to_dynamodb_def env_blank_cell_def env_two_rows_def
      row_ann_def row_blank_def
      dict_get_def dict_get_default_def emit_def contact_def advance_def initial_def Let_def)

text \<open>
  C5. The claim is that no delivery is attempted for a row without a usable address.
  The empty \<open>Email\<close> cell of a spreadsheet is read as the float \<open>nan\<close>, which is truthy:
  the guard lets the row through, \<open>send_email\<close> calls the provider with \<open>nan\<close> as the
  address, and the run hands the provider one message for each of the two rows.
\<close>

theorem blank_email_cell_is_sent:
  "truthy (dict_get row_blank ''Email'')
   \<and> fst (send_email env_blank_cell (PStr ''Welcome'') ''Hi {{Name}}'' row_blank (PStr ''Cloud Team'')
          initial) = (''Failed'', ''FAILED'')
   \<and> calls (snd (send_email env_blank_cell (PStr ''Welcome'') ''Hi {{Name}}'' row_blank
          (PStr ''Cloud Team'') initial))
       = [SesSendEmail \<lparr>msg_display_name = PStr ''Cloud Team'', msg_to_address = PNaN,
                         msg_subject = PStr ''Welcome'', msg_html = ''Hi {Name}''\<rparr>]
   \<and> map msg_to_address
        (sent_messages (calls (snd (lambda_handler env_blank_cell request_full initial))))
       = [PStr ''ann@example.org'', PNaN]"
proof -
  let ?st2 = "contact (S3ReadSheet (PStr ''people.xlsx''))
        (contact (S3GetTemplate (PStr ''welcome.html'')) (advance initial))"
  let ?loop = "dispatch_rows env_blank_cell (PStr ''0f3c'') (PStr ''welcome.html'')
     (PStr ''people.xlsx'') (PStr ''Welcome'') (PStr ''Cloud Team'') ''Hi {{Name}}''
     [row_ann, row_blank] [] ?st2"
  have a: "?loop = (Inr [PNaN], snd ?loop)"
    using loop_blank_cell by (simp add: prod_eq_iff del: dispatch_rows.simps)
  have c: "choose_run_id env_blank_cell fields_full initial = (PStr ''0f3c'', advance initial)"
    by (simp add: choose_run_id_def fields_full_get env_blank_cell_def env_two_rows_def
        initial_def)
  have v: "validate_template ''Hi {{Name}}'' (df_columns table_blank_cell) = []"
    by (simp add: validate_template_def findall_def table_blank_cell_def)
  have "s3_get_text env_blank_cell (PStr ''welcome.html'') = Inr ''Hi {{Name}}''"
    and "s3_read_excel env_blank_cell (PStr ''people.xlsx'') = Inr table_blank_cell"
    and "json_loads_body request_full = Inr (PDict fields_full)"
    and "\<not> df_empty table_blank_cell"
    and "df_records table_blank_cell = [row_ann, row_blank]"
    by (simp_all add: env_blank_cell_def env_two_rows_def request_full_def df_empty_def
        table_blank_cell_def)
  with lambda_handler_after_loop [of request_full fields_full env_blank_cell initial
      "PStr ''0f3c''" "advance initial" "''Hi {{Name}}''" table_blank_cell "[PNaN]" "snd ?loop"]
    a c v
  have "lambda_handler env_blank_cell request_full initial =
      run_response env_blank_cell (PStr ''0f3c'') [PNaN] (snd ?loop)"
    by (simp add: fields_full_get del: dispatch_rows.simps)
  with loop_blank_cell have
    "map msg_to_address
        (sent_messages (calls (snd (lambda_handler env_blank_cell request_full initial))))
       = [PStr ''ann@example.org'', PNaN]"
    by (simp add: run_response_state del: dispatch_rows.simps)
  moreover have "truthy (dict_get row_blank ''Email'')
   \<and> fst (send_email env_blank_cell (PStr ''Welcome'') ''Hi {{Name}}'' row_blank (PStr ''Cloud Team'')
          initial) = (''Failed'', ''FAILED'')
   \<and> calls (snd (send_email env_blank_cell (PStr ''Welcome'') ''Hi {{Name}}'' row_blank
          (PStr ''Cloud Team'') initial))
       = [SesSendEmail \<lparr>msg_display_name = PStr ''Cloud Team'', msg_to_address = PNaN,
                         msg_subject = PStr ''Welcome'', msg_html = ''Hi {Name}''\<rparr>]"
    by (simp add: send_email_def env_blank_cell_def env_two_rows_def row_blank_def dict_get_def
        dict_get_default_def emit_def contact_def advance_def initial_def Let_def)
  ultimately show ?thesis by simp
qed

subsection \<open>Claim C7\<close>














end
